theory Spec2Isabelle
  imports Main "HOL-Library.Multiset"
begin

section \<open>Go library functions used by portcheck\<close>

text \<open>
  Go strings are byte sequences; \<open>string\<close> (a list of 8-bit characters) models them
  byte for byte. An index expression that is out of range panics in Go; the model makes
  the panic a value.
\<close>

datatype panic = IndexOutOfRange | SendOnClosedChannel

definition index :: "'a list \<Rightarrow> nat \<Rightarrow> panic + 'a" where
  "index xs i = (if i < length xs then Inr (xs ! i) else Inl IndexOutOfRange)"

definition andThen :: "panic + 'a \<Rightarrow> ('a \<Rightarrow> panic + 'b) \<Rightarrow> panic + 'b" where
  "andThen m f = (case m of Inl e \<Rightarrow> Inl e | Inr v \<Rightarrow> f v)"

subsection \<open>strconv.Atoi\<close>

text \<open>
  An optional sign, then at least one decimal digit and nothing else; a value outside
  the 64-bit range of \<open>int\<close> is an error.
\<close>

definition isDigit :: "char \<Rightarrow> bool" where
  "isDigit c = (c \<in> set ''0123456789'')"

definition digitVal :: "char \<Rightarrow> int" where
  "digitVal c = int (of_char c) - 48"

definition decimal :: "string \<Rightarrow> int" where
  "decimal ds = foldl (\<lambda>acc c. 10 * acc + digitVal c) 0 ds"

definition Atoi :: "string \<Rightarrow> int option" where
  "Atoi s =
     (let neg = (s \<noteq> [] \<and> hd s = CHR ''-'');
          ds = (if s \<noteq> [] \<and> (hd s = CHR ''-'' \<or> hd s = CHR ''+'') then tl s else s)
      in if ds \<noteq> [] \<and> list_all isDigit ds
         then let v = (if neg then - decimal ds else decimal ds)
              in if v < - (2 ^ 63) \<or> 2 ^ 63 - 1 < v then None else Some v
         else None)"

subsection \<open>fmt.Sprintf("%04X", n)\<close>

definition hexChar :: "nat \<Rightarrow> char" where
  "hexChar d = ''0123456789ABCDEF'' ! d"

function hexDigits :: "nat \<Rightarrow> string" where
  "hexDigits n = (if n < 16 then [hexChar n] else hexDigits (n div 16) @ [hexChar (n mod 16)])"
  by pat_completeness auto
termination
  by (relation "measure (\<lambda>n. n)") auto

declare hexDigits.simps [simp del]

text \<open>
  Width 4 with the zero flag: the digits are padded with zeros to four places; for a
  negative number the sign takes one of the four places.
\<close>

definition fmt04X :: "int \<Rightarrow> string" where
  "fmt04X v =
     (let ds = hexDigits (nat \<bar>v\<bar>)
      in if v < 0 then CHR ''-'' # replicate (3 - length ds) (CHR ''0'') @ ds
         else replicate (4 - length ds) (CHR ''0'') @ ds)"

subsection \<open>White space: strings.Fields and strings.TrimSpace\<close>

text \<open>
  Both functions cut at the runes of \<open>unicode.IsSpace\<close>. The list below holds the
  UTF-8 encoding of each of them: tab, line feed, vertical tab, form feed, carriage
  return, space, U+0085, U+00A0, U+1680, U+2000 to U+200A, U+2028, U+2029, U+202F,
  U+205F and U+3000. Every multi-byte encoding starts with a lead byte and continues
  with continuation bytes, so a white-space rune starts at a byte position exactly when
  one of the encodings is a prefix of the rest of the string.
\<close>

definition spaceRunes :: "string list" where
  "spaceRunes =
     [[CHR 0x09], [CHR 0x0A], [CHR 0x0B], [CHR 0x0C], [CHR 0x0D], [CHR 0x20],
      [CHR 0xC2, CHR 0x85], [CHR 0xC2, CHR 0xA0], [CHR 0xE1, CHR 0x9A, CHR 0x80],
      [CHR 0xE2, CHR 0x80, CHR 0x80], [CHR 0xE2, CHR 0x80, CHR 0x81],
      [CHR 0xE2, CHR 0x80, CHR 0x82], [CHR 0xE2, CHR 0x80, CHR 0x83],
      [CHR 0xE2, CHR 0x80, CHR 0x84], [CHR 0xE2, CHR 0x80, CHR 0x85],
      [CHR 0xE2, CHR 0x80, CHR 0x86], [CHR 0xE2, CHR 0x80, CHR 0x87],
      [CHR 0xE2, CHR 0x80, CHR 0x88], [CHR 0xE2, CHR 0x80, CHR 0x89],
      [CHR 0xE2, CHR 0x80, CHR 0x8A], [CHR 0xE2, CHR 0x80, CHR 0xA8],
      [CHR 0xE2, CHR 0x80, CHR 0xA9], [CHR 0xE2, CHR 0x80, CHR 0xAF],
      [CHR 0xE2, CHR 0x81, CHR 0x9F], [CHR 0xE3, CHR 0x80, CHR 0x80]]"

definition leadingSpace :: "string \<Rightarrow> string option" where
  "leadingSpace s =
     (case List.find (\<lambda>e. take (length e) s = e) spaceRunes of
        None \<Rightarrow> None
      | Some e \<Rightarrow> Some (drop (length e) s))"

definition trailingSpace :: "string \<Rightarrow> string option" where
  "trailingSpace s =
     (case List.find (\<lambda>e. drop (length s - length e) s = e) spaceRunes of
        None \<Rightarrow> None
      | Some e \<Rightarrow> Some (take (length s - length e) s))"

lemma spaceRunes_nonempty: "e \<in> set spaceRunes \<Longrightarrow> e \<noteq> []"
  by (auto simp: spaceRunes_def)

lemma leadingSpace_shorter: "leadingSpace s = Some r \<Longrightarrow> length r < length s"
proof -
  assume a: "leadingSpace s = Some r"
  then obtain e where f: "List.find (\<lambda>e. take (length e) s = e) spaceRunes = Some e"
    and r: "r = drop (length e) s"
    by (auto simp: leadingSpace_def split: option.splits)
  from f have "e \<in> set spaceRunes" and t: "take (length e) s = e"
    by (auto simp: find_Some_iff)
  then have "e \<noteq> []" by (simp add: spaceRunes_nonempty)
  with t have "s \<noteq> []" by auto
  with \<open>e \<noteq> []\<close> r show ?thesis by simp
qed

lemma trailingSpace_shorter: "trailingSpace s = Some r \<Longrightarrow> length r < length s"
proof -
  assume a: "trailingSpace s = Some r"
  then obtain e where f: "List.find (\<lambda>e. drop (length s - length e) s = e) spaceRunes = Some e"
    and r: "r = take (length s - length e) s"
    by (auto simp: trailingSpace_def split: option.splits)
  from f have "e \<in> set spaceRunes" and t: "drop (length s - length e) s = e"
    by (auto simp: find_Some_iff)
  then have "e \<noteq> []" by (simp add: spaceRunes_nonempty)
  with t have "s \<noteq> []" by auto
  with \<open>e \<noteq> []\<close> r show ?thesis by simp
qed

text \<open>
  \<open>fieldsFrom cur s\<close> scans \<open>s\<close> with the field \<open>cur\<close> open: a white-space rune ends
  the open field, any other byte extends it.
\<close>

function fieldsFrom :: "string \<Rightarrow> string \<Rightarrow> string list" where
  "fieldsFrom cur [] = (if cur = [] then [] else [cur])"
| "fieldsFrom cur (c # cs) =
     (case leadingSpace (c # cs) of
        Some rest \<Rightarrow> (if cur = [] then [] else [cur]) @ fieldsFrom [] rest
      | None \<Rightarrow> fieldsFrom (cur @ [c]) cs)"
  by pat_completeness auto
termination
  by (relation "measure (\<lambda>(cur, s). length s)") (auto dest: leadingSpace_shorter)

definition Fields :: "string \<Rightarrow> string list" where
  "Fields s = fieldsFrom [] s"

function trimLeft :: "string \<Rightarrow> string" where
  "trimLeft s = (case leadingSpace s of Some rest \<Rightarrow> trimLeft rest | None \<Rightarrow> s)"
  by pat_completeness auto
termination
  by (relation "measure length") (auto dest: leadingSpace_shorter)

function trimRight :: "string \<Rightarrow> string" where
  "trimRight s = (case trailingSpace s of Some rest \<Rightarrow> trimRight rest | None \<Rightarrow> s)"
  by pat_completeness auto
termination
  by (relation "measure length") (auto dest: trailingSpace_shorter)

declare trimLeft.simps [simp del] trimRight.simps [simp del]

definition TrimSpace :: "string \<Rightarrow> string" where
  "TrimSpace s = trimRight (trimLeft s)"

subsection \<open>strings.Split with a one-byte separator\<close>

fun Split :: "string \<Rightarrow> char \<Rightarrow> string list" where
  "Split [] sep = [[]]"
| "Split (c # cs) sep =
     (if c = sep then [] # Split cs sep
      else (case Split cs sep of
              [] \<Rightarrow> [[c]]
            | part # parts \<Rightarrow> (c # part) # parts))"

section \<open>The system a probe runs against\<close>

text \<open>
  \<open>os.ReadFile\<close> returns the bytes it has read together with an error or \<open>nil\<close>.
\<close>

datatype readFile = ReadOK string | ReadErr string

fun dataOf :: "readFile \<Rightarrow> string" where
  "dataOf (ReadOK d) = d"
| "dataOf (ReadErr d) = d"

text \<open>
  The process tree under \<open>/proc\<close>, as the calls of \<open>findPIDByInode\<close> see it:
  whether \<open>os.Open("/proc")\<close> succeeds, the names \<open>Readdirnames(-1)\<close> returns and
  whether it returns them with an error, for each name the result of
  \<open>os.ReadDir("/proc/<name>/fd")\<close> (\<open>None\<close> for an error, else for each descriptor the
  result of \<open>os.Readlink\<close>, \<open>None\<close> for an error), and the result of
  \<open>os.ReadFile("/proc/<name>/comm")\<close>.
\<close>

record procfs =
  openProc :: bool
  readdirnames :: "string list"
  readdirnamesErr :: bool
  readDirFd :: "string \<Rightarrow> string option list option"
  readComm :: "string \<Rightarrow> readFile"

text \<open>
  The whole system: the ports that hold a listening socket, the ports on which a bind
  is refused for another reason (privilege, address family), the socket tables and the
  process tree. \<open>openNet path\<close> is \<open>None\<close> when \<open>os.Open path\<close> fails, and else the
  lines \<open>bufio.Scanner\<close> delivers from the file, in order, until it stops.
\<close>

record sys =
  bound :: "int set"
  refused :: "int \<Rightarrow> bool"
  openNet :: "string \<Rightarrow> string list option"
  procTree :: procfs

text \<open>
  \<open>net.Listen("tcp", ":port")\<close> binds the port or fails; \<open>listener.Close()\<close>
  releases the port the listener holds.
\<close>

definition netListen :: "sys \<Rightarrow> int \<Rightarrow> int option \<times> sys" where
  "netListen s port =
     (if port \<in> bound s \<or> refused s port then (None, s)
      else (Some port, s\<lparr>bound := insert port (bound s)\<rparr>))"

definition listenerClose :: "sys \<Rightarrow> int \<Rightarrow> sys" where
  "listenerClose s listener = s\<lparr>bound := bound s - {listener}\<rparr>"

section \<open>The result type\<close>

record PortResult =
  Port :: int
  InUse :: bool
  PID :: int
  Process :: string

section \<open>Process resolution in src/main.go\<close>

fun fdLoop_main :: "procfs \<Rightarrow> string \<Rightarrow> string \<Rightarrow> int \<Rightarrow> string option list \<Rightarrow> (int \<times> string) option"
  where
  "fdLoop_main fs socketLink entry pid [] = None"
| "fdLoop_main fs socketLink entry pid (link # fds) =
     (if link = Some socketLink
      then Some (pid, TrimSpace (dataOf (readComm fs entry)))
      else fdLoop_main fs socketLink entry pid fds)"

fun entryLoop_main :: "procfs \<Rightarrow> string \<Rightarrow> string list \<Rightarrow> int \<times> string" where
  "entryLoop_main fs socketLink [] = (0, [])"
| "entryLoop_main fs socketLink (entry # entries) =
     (case Atoi entry of
        None \<Rightarrow> entryLoop_main fs socketLink entries
      | Some pid \<Rightarrow>
          (case readDirFd fs entry of
             None \<Rightarrow> entryLoop_main fs socketLink entries
           | Some fds \<Rightarrow>
               (case fdLoop_main fs socketLink entry pid fds of
                  Some found \<Rightarrow> found
                | None \<Rightarrow> entryLoop_main fs socketLink entries)))"

definition findPIDByInode_main :: "procfs \<Rightarrow> string \<Rightarrow> int \<times> string" where
  "findPIDByInode_main fs inode =
     (if \<not> openProc fs then (0, [])
      else entryLoop_main fs (''socket:['' @ inode @ '']'') (readdirnames fs))"

fun rowLoop_main :: "procfs \<Rightarrow> string \<Rightarrow> string list \<Rightarrow> panic + int \<times> string" where
  "rowLoop_main fs portHex [] = Inr (0, [])"
| "rowLoop_main fs portHex (line # lines) =
     (let fields = Fields line
      in if length fields < 10 then rowLoop_main fs portHex lines
         else andThen (index fields 1) (\<lambda>localAddr.
           let parts = Split localAddr (CHR '':'')
           in if length parts \<noteq> 2 then rowLoop_main fs portHex lines
              else andThen (index parts 1) (\<lambda>p1.
                if p1 \<noteq> portHex then rowLoop_main fs portHex lines
                else andThen (index fields 3) (\<lambda>st.
                  if st \<noteq> ''0A'' then rowLoop_main fs portHex lines
                  else andThen (index fields 9) (\<lambda>inode.
                    Inr (findPIDByInode_main fs inode))))))"

definition searchNetFile_main :: "sys \<Rightarrow> string \<Rightarrow> int \<Rightarrow> panic + int \<times> string" where
  "searchNetFile_main s path port =
     (case openNet s path of
        None \<Rightarrow> Inr (0, [])
      | Some lines \<Rightarrow> rowLoop_main (procTree s) (fmt04X port) (drop 1 lines))"

fun fileLoop_main :: "sys \<Rightarrow> int \<Rightarrow> string list \<Rightarrow> panic + int \<times> string" where
  "fileLoop_main s port [] = Inr (0, [])"
| "fileLoop_main s port (f # fs) =
     andThen (searchNetFile_main s f port) (\<lambda>(pid, name).
       if pid > 0 then Inr (pid, name) else fileLoop_main s port fs)"

definition findProcessByPort_main :: "sys \<Rightarrow> int \<Rightarrow> panic + int \<times> string" where
  "findProcessByPort_main s port = fileLoop_main s port [''/proc/net/tcp'', ''/proc/net/tcp6'']"

definition checkPort_main :: "sys \<Rightarrow> int \<Rightarrow> bool \<Rightarrow> (panic + PortResult) \<times> sys" where
  "checkPort_main s port getPID =
     (let result = \<lparr>Port = port, InUse = False, PID = 0, Process = []\<rparr>
      in case netListen s port of
           (None, s') \<Rightarrow>
             (if getPID
              then (andThen (findProcessByPort_main s' port) (\<lambda>(pid, name).
                      Inr (result\<lparr>InUse := True, PID := pid, Process := name\<rparr>)), s')
              else (Inr (result\<lparr>InUse := True\<rparr>), s'))
         | (Some listener, s') \<Rightarrow> (Inr result, listenerClose s' listener))"

section \<open>Process resolution in src/unnamed/part_000\<close>

fun fdLoop_part0 :: "procfs \<Rightarrow> string \<Rightarrow> string \<Rightarrow> int \<Rightarrow> string option list \<Rightarrow> (int \<times> string) option"
  where
  "fdLoop_part0 fs socketLink entry pid [] = None"
| "fdLoop_part0 fs socketLink entry pid (link # fds) =
     (case link of
        None \<Rightarrow> fdLoop_part0 fs socketLink entry pid fds
      | Some l \<Rightarrow>
          if l = socketLink
          then (case readComm fs entry of
                  ReadErr d \<Rightarrow> Some (pid, ''unknown'')
                | ReadOK comm \<Rightarrow> Some (pid, TrimSpace comm))
          else fdLoop_part0 fs socketLink entry pid fds)"

fun entryLoop_part0 :: "procfs \<Rightarrow> string \<Rightarrow> string list \<Rightarrow> int \<times> string" where
  "entryLoop_part0 fs socketLink [] = (0, [])"
| "entryLoop_part0 fs socketLink (entry # entries) =
     (case Atoi entry of
        None \<Rightarrow> entryLoop_part0 fs socketLink entries
      | Some pid \<Rightarrow>
          (case readDirFd fs entry of
             None \<Rightarrow> entryLoop_part0 fs socketLink entries
           | Some fds \<Rightarrow>
               (case fdLoop_part0 fs socketLink entry pid fds of
                  Some found \<Rightarrow> found
                | None \<Rightarrow> entryLoop_part0 fs socketLink entries)))"

definition findPIDByInode_part0 :: "procfs \<Rightarrow> string \<Rightarrow> int \<times> string" where
  "findPIDByInode_part0 fs inode =
     (if \<not> openProc fs then (0, [])
      else if readdirnamesErr fs then (0, [])
      else entryLoop_part0 fs (''socket:['' @ inode @ '']'') (readdirnames fs))"

fun rowLoop_part0 :: "procfs \<Rightarrow> string \<Rightarrow> string list \<Rightarrow> panic + int \<times> string" where
  "rowLoop_part0 fs portHex [] = Inr (0, [])"
| "rowLoop_part0 fs portHex (line # lines) =
     (let fields = Fields line
      in if length fields < 10 then rowLoop_part0 fs portHex lines
         else andThen (index fields 1) (\<lambda>localAddr.
           let parts = Split localAddr (CHR '':'')
           in if length parts \<noteq> 2 then rowLoop_part0 fs portHex lines
              else andThen (index parts 1) (\<lambda>p1.
                if p1 = portHex
                then andThen (index fields 3) (\<lambda>st.
                  if st = ''0A''
                  then andThen (index fields 9) (\<lambda>inode.
                    Inr (findPIDByInode_part0 fs inode))
                  else rowLoop_part0 fs portHex lines)
                else rowLoop_part0 fs portHex lines)))"

definition searchNetFile_part0 :: "sys \<Rightarrow> string \<Rightarrow> int \<Rightarrow> panic + int \<times> string" where
  "searchNetFile_part0 s path port =
     (case openNet s path of
        None \<Rightarrow> Inr (0, [])
      | Some lines \<Rightarrow> rowLoop_part0 (procTree s) (fmt04X port) (drop 1 lines))"

fun fileLoop_part0 :: "sys \<Rightarrow> int \<Rightarrow> string list \<Rightarrow> panic + int \<times> string" where
  "fileLoop_part0 s port [] = Inr (0, [])"
| "fileLoop_part0 s port (f # fs) =
     andThen (searchNetFile_part0 s f port) (\<lambda>(pid, name).
       if pid > 0 then Inr (pid, name) else fileLoop_part0 s port fs)"

definition findProcessByPort_part0 :: "sys \<Rightarrow> int \<Rightarrow> panic + int \<times> string" where
  "findProcessByPort_part0 s port = fileLoop_part0 s port [''/proc/net/tcp'', ''/proc/net/tcp6'']"

definition checkPort_part0 :: "sys \<Rightarrow> int \<Rightarrow> bool \<Rightarrow> (panic + PortResult) \<times> sys" where
  "checkPort_part0 s port getPID =
     (let result = \<lparr>Port = port, InUse = False, PID = 0, Process = []\<rparr>
      in case netListen s port of
           (None, s') \<Rightarrow>
             (if getPID
              then (andThen (findProcessByPort_part0 s' port) (\<lambda>(pid, name).
                      Inr (result\<lparr>InUse := True, PID := pid, Process := name\<rparr>)), s')
              else (Inr (result\<lparr>InUse := True\<rparr>), s'))
         | (Some listener, s') \<Rightarrow> (Inr (result\<lparr>InUse := False\<rparr>), listenerClose s' listener))"

section \<open>Facts about the socket-table scan\<close>

lemma index_Inr: "i < length xs \<Longrightarrow> index xs i = Inr (xs ! i)"
  by (simp add: index_def)

lemma andThen_Inr: "andThen (Inr v) f = f v"
  by (simp add: andThen_def)

text \<open>
  A row matches a port when it has at least ten fields, its local address splits at the
  colon into two parts of which the second is the port in hexadecimal, and its state is
  the listening code. The inode of a row is its tenth field.
\<close>

definition rowMatches :: "string \<Rightarrow> string \<Rightarrow> bool" where
  "rowMatches portHex line =
     (let fields = Fields line
      in 10 \<le> length fields \<and>
         (let parts = Split (fields ! 1) (CHR '':'')
          in length parts = 2 \<and> parts ! 1 = portHex \<and> fields ! 3 = ''0A''))"

definition rowInode :: "string \<Rightarrow> string" where
  "rowInode line = Fields line ! 9"

lemma rowLoop_main_find:
  "rowLoop_main fs portHex lines =
     (case List.find (rowMatches portHex) lines of
        None \<Rightarrow> Inr (0, [])
      | Some line \<Rightarrow> Inr (findPIDByInode_main fs (rowInode line)))"
proof (induction lines)
  case Nil
  show ?case by simp
next
  case (Cons line lines)
  show ?case
  proof (cases "length (Fields line) < 10")
    case True
    then show ?thesis using Cons by (simp add: rowMatches_def Let_def)
  next
    case False
    then have f: "1 < length (Fields line)" "3 < length (Fields line)" "9 < length (Fields line)"
      by simp_all
    show ?thesis
    proof (cases "length (Split (Fields line ! 1) (CHR '':'')) = 2")
      case True
      then have p: "1 < length (Split (Fields line ! 1) (CHR '':''))" by simp
      show ?thesis using Cons True f p
        by (simp add: rowMatches_def rowInode_def Let_def index_def andThen_def)
    next
      case F2: False
      then show ?thesis using Cons f
        by (simp add: rowMatches_def Let_def index_def andThen_def)
    qed
  qed
qed

lemma rowLoop_part0_find:
  "rowLoop_part0 fs portHex lines =
     (case List.find (rowMatches portHex) lines of
        None \<Rightarrow> Inr (0, [])
      | Some line \<Rightarrow> Inr (findPIDByInode_part0 fs (rowInode line)))"
proof (induction lines)
  case Nil
  show ?case by simp
next
  case (Cons line lines)
  show ?case
  proof (cases "length (Fields line) < 10")
    case True
    then show ?thesis using Cons by (simp add: rowMatches_def Let_def)
  next
    case False
    then have f: "1 < length (Fields line)" "3 < length (Fields line)" "9 < length (Fields line)"
      by simp_all
    show ?thesis
    proof (cases "length (Split (Fields line ! 1) (CHR '':'')) = 2")
      case True
      then have p: "1 < length (Split (Fields line ! 1) (CHR '':''))" by simp
      show ?thesis using Cons True f p
        by (simp add: rowMatches_def rowInode_def Let_def index_def andThen_def)
    next
      case F2: False
      then show ?thesis using Cons f
        by (simp add: rowMatches_def Let_def index_def andThen_def)
    qed
  qed
qed

section \<open>Facts about the inode-to-process correlation\<close>

text \<open>
  The name each program reports for a process, and the test that a directory entry of
  \<open>/proc\<close> is a process holding a descriptor whose link is the given text.
\<close>

definition commName_main :: "procfs \<Rightarrow> string \<Rightarrow> string" where
  "commName_main fs entry = TrimSpace (dataOf (readComm fs entry))"

definition commName_part0 :: "procfs \<Rightarrow> string \<Rightarrow> string" where
  "commName_part0 fs entry =
     (case readComm fs entry of ReadErr d \<Rightarrow> ''unknown'' | ReadOK comm \<Rightarrow> TrimSpace comm)"

lemma fdLoop_main_eq:
  "fdLoop_main fs link entry pid fds =
     (if Some link \<in> set fds then Some (pid, commName_main fs entry) else None)"
  by (induction fds) (auto simp: commName_main_def)

lemma fdLoop_part0_eq:
  "fdLoop_part0 fs link entry pid fds =
     (if Some link \<in> set fds then Some (pid, commName_part0 fs entry) else None)"
  by (induction fds) (auto simp: commName_part0_def split: option.splits readFile.splits)

definition holdsLink :: "procfs \<Rightarrow> string \<Rightarrow> string \<Rightarrow> bool" where
  "holdsLink fs link entry =
     (case Atoi entry of
        None \<Rightarrow> False
      | Some pid \<Rightarrow> (case readDirFd fs entry of None \<Rightarrow> False | Some fds \<Rightarrow> Some link \<in> set fds))"

lemma entryLoop_main_find:
  "entryLoop_main fs link entries =
     (case List.find (holdsLink fs link) entries of
        None \<Rightarrow> (0, [])
      | Some e \<Rightarrow> (the (Atoi e), commName_main fs e))"
  by (induction entries) (auto simp: holdsLink_def fdLoop_main_eq split: option.splits)

lemma entryLoop_part0_find:
  "entryLoop_part0 fs link entries =
     (case List.find (holdsLink fs link) entries of
        None \<Rightarrow> (0, [])
      | Some e \<Rightarrow> (the (Atoi e), commName_part0 fs e))"
  by (induction entries) (auto simp: holdsLink_def fdLoop_part0_eq split: option.splits)

section \<open>The command name of an owner whose comm file cannot be read\<close>

text \<open>
  A process tree in which process 4321 holds a descriptor whose link is
  \<open>socket:[12345]\<close> and no \<open>comm\<close> file can be read.
\<close>

definition procUnreadableComm :: procfs where
  "procUnreadableComm =
     \<lparr>openProc = True, readdirnames = [''self'', ''4321''], readdirnamesErr = False,
      readDirFd = (\<lambda>e. if e = ''4321'' then Some [None, Some ''socket:[12345]''] else None),
      readComm = (\<lambda>e. ReadErr [])\<rparr>"

lemma findPIDByInode_part0_unknown:
  assumes "openProc fs" "\<not> readdirnamesErr fs"
    and "List.find (holdsLink fs (''socket:['' @ inode @ '']'')) (readdirnames fs) = Some e"
    and "readComm fs e = ReadErr d"
  shows "findPIDByInode_part0 fs inode = (the (Atoi e), ''unknown'')"
  using assms by (simp add: findPIDByInode_part0_def entryLoop_part0_find commName_part0_def)

text \<open>
  Claim C8: when the correlation finds the owning process and the process's comm file
  cannot be read, resolution returns the pid with the name \<open>unknown\<close>. The program of
  src/unnamed/part_000 does (\<open>findPIDByInode_part0_unknown\<close>); the program of
  src/main.go drops the error of \<open>os.ReadFile\<close> and returns the pid with the trimmed
  bytes that were read, here the empty name.
\<close>

theorem findPIDByInode_main_unreadable_comm:
  "findPIDByInode_main procUnreadableComm ''12345'' = (4321, []) \<and>
   findPIDByInode_part0 procUnreadableComm ''12345'' = (4321, ''unknown'')"
  by code_simp

section \<open>Facts about the two-table lookup\<close>

text \<open>
  The first row of a socket table, after its header, that matches the port; and what
  each program's search of one table returns, as a value free of the panic branch.
\<close>

definition firstMatch :: "sys \<Rightarrow> string \<Rightarrow> int \<Rightarrow> string option" where
  "firstMatch s path port =
     (case openNet s path of
        None \<Rightarrow> None
      | Some lines \<Rightarrow> List.find (rowMatches (fmt04X port)) (drop 1 lines))"

definition lookup_main :: "sys \<Rightarrow> string \<Rightarrow> int \<Rightarrow> int \<times> string" where
  "lookup_main s path port =
     (case firstMatch s path port of
        None \<Rightarrow> (0, [])
      | Some row \<Rightarrow> findPIDByInode_main (procTree s) (rowInode row))"

definition lookup_part0 :: "sys \<Rightarrow> string \<Rightarrow> int \<Rightarrow> int \<times> string" where
  "lookup_part0 s path port =
     (case firstMatch s path port of
        None \<Rightarrow> (0, [])
      | Some row \<Rightarrow> findPIDByInode_part0 (procTree s) (rowInode row))"

lemma searchNetFile_main_eq: "searchNetFile_main s path port = Inr (lookup_main s path port)"
  by (simp add: searchNetFile_main_def lookup_main_def firstMatch_def rowLoop_main_find
      split: option.splits)

lemma searchNetFile_part0_eq: "searchNetFile_part0 s path port = Inr (lookup_part0 s path port)"
  by (simp add: searchNetFile_part0_def lookup_part0_def firstMatch_def rowLoop_part0_find
      split: option.splits)

lemma findProcessByPort_main_eq:
  "findProcessByPort_main s port =
     Inr (if fst (lookup_main s ''/proc/net/tcp'' port) > 0
          then lookup_main s ''/proc/net/tcp'' port
          else if fst (lookup_main s ''/proc/net/tcp6'' port) > 0
          then lookup_main s ''/proc/net/tcp6'' port
          else (0, []))"
  by (simp add: findProcessByPort_main_def searchNetFile_main_eq andThen_def split: prod.splits)

lemma findProcessByPort_part0_eq:
  "findProcessByPort_part0 s port =
     Inr (if fst (lookup_part0 s ''/proc/net/tcp'' port) > 0
          then lookup_part0 s ''/proc/net/tcp'' port
          else if fst (lookup_part0 s ''/proc/net/tcp6'' port) > 0
          then lookup_part0 s ''/proc/net/tcp6'' port
          else (0, []))"
  by (simp add: findProcessByPort_part0_def searchNetFile_part0_eq andThen_def split: prod.splits)

text \<open>What a resolution returns: a positive pid with its name, or the pair of zero values.\<close>

definition resolved_main :: "sys \<Rightarrow> int \<Rightarrow> int \<times> string" where
  "resolved_main s port =
     (case findProcessByPort_main s port of Inl e \<Rightarrow> (0, []) | Inr r \<Rightarrow> r)"

definition resolved_part0 :: "sys \<Rightarrow> int \<Rightarrow> int \<times> string" where
  "resolved_part0 s port =
     (case findProcessByPort_part0 s port of Inl e \<Rightarrow> (0, []) | Inr r \<Rightarrow> r)"

lemma findProcessByPort_main_resolved:
  "findProcessByPort_main s port = Inr (resolved_main s port)"
  by (simp add: resolved_main_def findProcessByPort_main_eq)

lemma findProcessByPort_part0_resolved:
  "findProcessByPort_part0 s port = Inr (resolved_part0 s port)"
  by (simp add: resolved_part0_def findProcessByPort_part0_eq)

lemma resolved_main_cases:
  "0 < fst (resolved_main s port) \<or> resolved_main s port = (0, [])"
  by (simp add: resolved_main_def findProcessByPort_main_eq)

lemma resolved_part0_cases:
  "0 < fst (resolved_part0 s port) \<or> resolved_part0 s port = (0, [])"
  by (simp add: resolved_part0_def findProcessByPort_part0_eq)

lemma checkPort_main_eq:
  "checkPort_main s port getPID =
     (if port \<in> bound s \<or> refused s port
      then (Inr \<lparr>Port = port, InUse = True,
                 PID = (if getPID then fst (resolved_main s port) else 0),
                 Process = (if getPID then snd (resolved_main s port) else [])\<rparr>, s)
      else (Inr \<lparr>Port = port, InUse = False, PID = 0, Process = []\<rparr>, s))"
proof -
  have "port \<notin> bound s \<Longrightarrow> s\<lparr>bound := insert port (bound s) - {port}\<rparr> = s"
    by simp
  then show ?thesis
    by (auto simp: checkPort_main_def netListen_def listenerClose_def Let_def andThen_def
        findProcessByPort_main_resolved split: prod.splits)
qed

lemma checkPort_part0_eq:
  "checkPort_part0 s port getPID =
     (if port \<in> bound s \<or> refused s port
      then (Inr \<lparr>Port = port, InUse = True,
                 PID = (if getPID then fst (resolved_part0 s port) else 0),
                 Process = (if getPID then snd (resolved_part0 s port) else [])\<rparr>, s)
      else (Inr \<lparr>Port = port, InUse = False, PID = 0, Process = []\<rparr>, s))"
proof -
  have "port \<notin> bound s \<Longrightarrow> s\<lparr>bound := insert port (bound s) - {port}\<rparr> = s"
    by simp
  then show ?thesis
    by (auto simp: checkPort_part0_def netListen_def listenerClose_def Let_def andThen_def
        findProcessByPort_part0_resolved split: prod.splits)
qed

section \<open>Facts about the hexadecimal port\<close>

lemma hexDigits_small: "n < 16 \<Longrightarrow> hexDigits n = [hexChar n]"
  by (simp add: hexDigits.simps)

lemma hexDigits_large: "16 \<le> n \<Longrightarrow> hexDigits n = hexDigits (n div 16) @ [hexChar (n mod 16)]"
  by (subst hexDigits.simps) simp

lemma hexDigits_port:
  assumes "n < 65536"
  shows "replicate (4 - length (hexDigits n)) (CHR ''0'') @ hexDigits n =
         [hexChar (n div 4096), hexChar (n div 256 mod 16), hexChar (n div 16 mod 16),
          hexChar (n mod 16)]"
proof -
  have z: "hexChar 0 = CHR ''0''" unfolding hexChar_def by simp
  have r3: "replicate 3 c = [c, c, c]" for c :: char by (simp add: numeral_3_eq_3)
  have r2: "replicate 2 c = [c, c]" for c :: char by (simp add: numeral_2_eq_2)
  consider "n < 16" | "16 \<le> n" "n < 256" | "256 \<le> n" "n < 4096" | "4096 \<le> n"
    by linarith
  then show ?thesis
  proof cases
    case 1
    then have d: "hexDigits n = [hexChar n]" by (rule hexDigits_small)
    from 1 have "n div 4096 = 0" "n div 256 = 0" "n div 16 = 0" "n mod 16 = n" by simp_all
    then show ?thesis by (simp add: d z r3)
  next
    case 2
    then have "n div 16 < 16" by simp
    with 2 have d: "hexDigits n = [hexChar (n div 16), hexChar (n mod 16)]"
      by (simp add: hexDigits_large hexDigits_small)
    from 2 have "n div 4096 = 0" "n div 256 = 0" "n div 16 mod 16 = n div 16" by simp_all
    then show ?thesis by (simp add: d z r2)
  next
    case 3
    then have a: "16 \<le> n div 16" "n div 16 div 16 < 16" by simp_all
    have b: "n div 16 div 16 = n div 256" by (simp add: div_mult2_eq [symmetric])
    from 3 a have d: "hexDigits n = [hexChar (n div 256), hexChar (n div 16 mod 16), hexChar (n mod 16)]"
      by (simp add: hexDigits_large [of n] hexDigits_large [of "n div 16"] hexDigits_small b)
    from 3 have "n div 4096 = 0" "n div 256 mod 16 = n div 256" by simp_all
    then show ?thesis by (simp add: d z)
  next
    case 4
    with assms have a: "16 \<le> n div 16" "16 \<le> n div 16 div 16" "n div 16 div 16 div 16 < 16"
      by simp_all
    have b: "n div 16 div 16 = n div 256" "n div 256 div 16 = n div 4096"
      by (simp_all add: div_mult2_eq [symmetric])
    from 4 a have d: "hexDigits n =
        [hexChar (n div 4096), hexChar (n div 256 mod 16), hexChar (n div 16 mod 16),
         hexChar (n mod 16)]"
      by (simp add: hexDigits_large [of n] hexDigits_large [of "n div 16"]
          hexDigits_large [of "n div 256"] hexDigits_small b)
    show ?thesis by (simp add: d)
  qed
qed

lemma fmt04X_port:
  assumes "1 \<le> p" "p \<le> 65535"
  shows "fmt04X p =
         [hexChar (nat p div 4096), hexChar (nat p div 256 mod 16), hexChar (nat p div 16 mod 16),
          hexChar (nat p mod 16)]"
proof -
  from assms have "nat \<bar>p\<bar> = nat p" "nat p < 65536" "\<not> p < 0" by simp_all
  then show ?thesis by (simp add: fmt04X_def Let_def hexDigits_port)
qed

lemma fmt04X_8080: "fmt04X 8080 = ''1F90''"
  by (simp add: fmt04X_port hexChar_def)

lemma fmt04X_22: "fmt04X 22 = ''0016''"
  by (simp add: fmt04X_port hexChar_def)

section \<open>A concrete system\<close>

text \<open>
  A system used to instantiate the theorems below: ports 22 and 8080 hold listeners; the
  IPv4 socket table has a header, a listening row for port 22 with inode 111 and a
  listening row for port 8080 with inode 12345; the IPv6 table cannot be opened; process
  1 hides its descriptors, process 4321 holds \<open>socket:[12345]\<close> and is named testproc.
\<close>

definition rowSsh :: string where
  "rowSsh = ''0: 0:0016 0:0 0A 0 0 0 0 0 111''"

definition rowListen :: string where
  "rowListen = ''1: 0:1F90 0:0 0A 0 0 0 0 0 12345''"

definition procTestproc :: procfs where
  "procTestproc =
     \<lparr>openProc = True, readdirnames = [''self'', ''1'', ''4321''], readdirnamesErr = False,
      readDirFd = (\<lambda>e. if e = ''4321'' then Some [None, Some ''socket:[12345]'']
                        else if e = ''self'' then Some [] else None),
      readComm = (\<lambda>e. if e = ''4321'' then ReadOK (''testproc'' @ [CHR 0x0A]) else ReadErr [])\<rparr>"

definition sysTestproc :: sys where
  "sysTestproc =
     \<lparr>bound = {22, 8080}, refused = (\<lambda>p. False),
      openNet = (\<lambda>path. if path = ''/proc/net/tcp''
                  then Some [''sl local_address'', rowSsh, rowListen]
                  else None),
      procTree = procTestproc\<rparr>"

lemma Fields_rowSsh:
  "Fields rowSsh = [''0:'', ''0:0016'', ''0:0'', ''0A'', ''0'', ''0'', ''0'', ''0'', ''0'', ''111'']"
  by code_simp

lemma Fields_rowListen:
  "Fields rowListen =
     [''1:'', ''0:1F90'', ''0:0'', ''0A'', ''0'', ''0'', ''0'', ''0'', ''0'', ''12345'']"
  by code_simp

lemma rowSsh_no_match: "\<not> rowMatches ''1F90'' rowSsh"
  by (simp add: rowMatches_def Fields_rowSsh)

lemma rowListen_match: "rowMatches ''1F90'' rowListen"
  by (simp add: rowMatches_def Fields_rowListen)

lemma rowInode_rowListen: "rowInode rowListen = ''12345''"
  by (simp add: rowInode_def Fields_rowListen)

lemma firstMatch_sysTestproc:
  "firstMatch sysTestproc ''/proc/net/tcp'' 8080 = Some rowListen"
  "firstMatch sysTestproc ''/proc/net/tcp6'' 8080 = None"
  by (simp_all add: firstMatch_def sysTestproc_def fmt04X_8080 rowSsh_no_match rowListen_match)

lemma findPIDByInode_procTestproc:
  "findPIDByInode_main procTestproc ''12345'' = (4321, ''testproc'')"
  "findPIDByInode_part0 procTestproc ''12345'' = (4321, ''testproc'')"
  by code_simp code_simp

lemma procTree_sysTestproc: "procTree sysTestproc = procTestproc"
  by (simp add: sysTestproc_def)

lemma lookup_sysTestproc:
  "lookup_main sysTestproc ''/proc/net/tcp'' 8080 = (4321, ''testproc'')"
  "lookup_part0 sysTestproc ''/proc/net/tcp'' 8080 = (4321, ''testproc'')"
  "lookup_main sysTestproc ''/proc/net/tcp6'' 8080 = (0, [])"
  "lookup_part0 sysTestproc ''/proc/net/tcp6'' 8080 = (0, [])"
  by (simp_all add: lookup_main_def lookup_part0_def firstMatch_sysTestproc rowInode_rowListen
      procTree_sysTestproc findPIDByInode_procTestproc)

lemma resolved_sysTestproc:
  "resolved_main sysTestproc 8080 = (4321, ''testproc'')"
  "resolved_part0 sysTestproc 8080 = (4321, ''testproc'')"
  by (simp_all add: resolved_main_def resolved_part0_def findProcessByPort_main_eq
      findProcessByPort_part0_eq lookup_sysTestproc)

lemma fields_sysTestproc:
  "bound sysTestproc = {22, 8080}" "refused sysTestproc = (\<lambda>p. False)"
  by (simp_all add: sysTestproc_def)

lemma rowSsh_match: "rowMatches ''0016'' rowSsh"
  by (simp add: rowMatches_def Fields_rowSsh)

lemma rowInode_rowSsh: "rowInode rowSsh = ''111''"
  by (simp add: rowInode_def Fields_rowSsh)

lemma firstMatch_sysTestproc_22:
  "firstMatch sysTestproc ''/proc/net/tcp'' 22 = Some rowSsh"
  "firstMatch sysTestproc ''/proc/net/tcp6'' 22 = None"
  by (simp_all add: firstMatch_def sysTestproc_def fmt04X_22 rowSsh_match)

lemma findPIDByInode_procTestproc_111:
  "findPIDByInode_main procTestproc ''111'' = (0, [])"
  "findPIDByInode_part0 procTestproc ''111'' = (0, [])"
  by code_simp code_simp

lemma resolved_sysTestproc_22:
  "resolved_main sysTestproc 22 = (0, [])"
  "resolved_part0 sysTestproc 22 = (0, [])"
  by (simp_all add: resolved_main_def resolved_part0_def findProcessByPort_main_eq
      findProcessByPort_part0_eq lookup_main_def lookup_part0_def firstMatch_sysTestproc_22
      rowInode_rowSsh procTree_sysTestproc findPIDByInode_procTestproc_111)

section \<open>Claims about checkPort\<close>

text \<open>
  Claim C6: the PortResult of \<open>checkPort\<close> carries an owner (a non-zero PID or a
  non-empty process name) only when the port is in use, resolution was requested and
  resolution succeeded, the owner being what \<open>findProcessByPort\<close> returned; when
  \<open>InUse\<close> is false the PID is 0 and the name is empty. Both programs; the call always
  returns a result for the port it was given.
\<close>

theorem checkPort_owner_only_when_resolved:
  "(\<exists>r. fst (checkPort_main s port getPID) = Inr r \<and> Port r = port \<and>
        (PID r \<noteq> 0 \<or> Process r \<noteq> [] \<longrightarrow>
           InUse r \<and> getPID \<and> 0 < PID r \<and>
           findProcessByPort_main s port = Inr (PID r, Process r)) \<and>
        (\<not> InUse r \<longrightarrow> PID r = 0 \<and> Process r = [])) \<and>
   (\<exists>r. fst (checkPort_part0 s port getPID) = Inr r \<and> Port r = port \<and>
        (PID r \<noteq> 0 \<or> Process r \<noteq> [] \<longrightarrow>
           InUse r \<and> getPID \<and> 0 < PID r \<and>
           findProcessByPort_part0 s port = Inr (PID r, Process r)) \<and>
        (\<not> InUse r \<longrightarrow> PID r = 0 \<and> Process r = []))"
proof (intro conjI)
  show "\<exists>r. fst (checkPort_main s port getPID) = Inr r \<and> Port r = port \<and>
        (PID r \<noteq> 0 \<or> Process r \<noteq> [] \<longrightarrow>
           InUse r \<and> getPID \<and> 0 < PID r \<and>
           findProcessByPort_main s port = Inr (PID r, Process r)) \<and>
        (\<not> InUse r \<longrightarrow> PID r = 0 \<and> Process r = [])"
    using resolved_main_cases [of s port]
    by (auto simp: checkPort_main_eq findProcessByPort_main_resolved)
  show "\<exists>r. fst (checkPort_part0 s port getPID) = Inr r \<and> Port r = port \<and>
        (PID r \<noteq> 0 \<or> Process r \<noteq> [] \<longrightarrow>
           InUse r \<and> getPID \<and> 0 < PID r \<and>
           findProcessByPort_part0 s port = Inr (PID r, Process r)) \<and>
        (\<not> InUse r \<longrightarrow> PID r = 0 \<and> Process r = [])"
    using resolved_part0_cases [of s port]
    by (auto simp: checkPort_part0_eq findProcessByPort_part0_resolved)
qed

theorem checkPort_owner_only_when_resolved_witness:
  "(\<exists>r. fst (checkPort_main sysTestproc 8080 True) = Inr r \<and> PID r = 4321 \<and> InUse r \<and>
        findProcessByPort_main sysTestproc 8080 = Inr (PID r, Process r)) \<and>
   (\<exists>r. fst (checkPort_part0 sysTestproc 8080 True) = Inr r \<and> PID r = 4321 \<and> InUse r \<and>
        findProcessByPort_part0 sysTestproc 8080 = Inr (PID r, Process r))"
proof -
  have m: "fst (checkPort_main sysTestproc 8080 True) =
      Inr \<lparr>Port = 8080, InUse = True, PID = 4321, Process = ''testproc''\<rparr>"
    by (simp add: checkPort_main_eq resolved_sysTestproc fields_sysTestproc)
  have p: "fst (checkPort_part0 sysTestproc 8080 True) =
      Inr \<lparr>Port = 8080, InUse = True, PID = 4321, Process = ''testproc''\<rparr>"
    by (simp add: checkPort_part0_eq resolved_sysTestproc fields_sysTestproc)
  from checkPort_owner_only_when_resolved [of sysTestproc 8080 True] m p
  show ?thesis by auto
qed

text \<open>
  Claim C7, as the programs have it: a PortResult has no separate value for an absent
  owner. Without the resolution flag, and for a port that is not in use, the PID is 0 and
  the name is empty; and when resolution is attempted and fails, the result is the very
  result of the call without the flag. Only the flag, which the caller keeps, tells the
  two apart.
\<close>

theorem checkPort_absent_owner_is_zero:
  "(\<forall>r. fst (checkPort_main s port False) = Inr r \<longrightarrow> PID r = 0 \<and> Process r = []) \<and>
   (\<forall>r. fst (checkPort_main s port True) = Inr r \<and> \<not> InUse r \<longrightarrow> PID r = 0 \<and> Process r = []) \<and>
   (findProcessByPort_main s port = Inr (0, []) \<longrightarrow>
      checkPort_main s port True = checkPort_main s port False) \<and>
   (\<forall>r. fst (checkPort_part0 s port False) = Inr r \<longrightarrow> PID r = 0 \<and> Process r = []) \<and>
   (\<forall>r. fst (checkPort_part0 s port True) = Inr r \<and> \<not> InUse r \<longrightarrow> PID r = 0 \<and> Process r = []) \<and>
   (findProcessByPort_part0 s port = Inr (0, []) \<longrightarrow>
      checkPort_part0 s port True = checkPort_part0 s port False)"
  by (auto simp: checkPort_main_eq checkPort_part0_eq findProcessByPort_main_resolved
      findProcessByPort_part0_resolved)

theorem checkPort_absent_owner_is_zero_witness:
  "findProcessByPort_main sysTestproc 22 = Inr (0, []) \<and>
   checkPort_main sysTestproc 22 True = checkPort_main sysTestproc 22 False \<and>
   findProcessByPort_part0 sysTestproc 22 = Inr (0, []) \<and>
   checkPort_part0 sysTestproc 22 True = checkPort_part0 sysTestproc 22 False"
  using checkPort_absent_owner_is_zero [of sysTestproc 22]
  by (simp add: findProcessByPort_main_resolved findProcessByPort_part0_resolved
      resolved_sysTestproc_22)

text \<open>
  Claim C7 as the specification states it fails: port 22 is in use, its row is found in
  the socket table, the process tree is searched and no owner is found; the PortResult of
  this failed resolution is equal to the PortResult of a call that never asked.
\<close>

theorem checkPort_failed_resolution_indistinguishable:
  "firstMatch sysTestproc ''/proc/net/tcp'' 22 = Some rowSsh \<and>
   fst (checkPort_main sysTestproc 22 True) =
     Inr \<lparr>Port = 22, InUse = True, PID = 0, Process = []\<rparr> \<and>
   fst (checkPort_main sysTestproc 22 False) =
     Inr \<lparr>Port = 22, InUse = True, PID = 0, Process = []\<rparr> \<and>
   fst (checkPort_part0 sysTestproc 22 True) =
     Inr \<lparr>Port = 22, InUse = True, PID = 0, Process = []\<rparr> \<and>
   fst (checkPort_part0 sysTestproc 22 False) =
     Inr \<lparr>Port = 22, InUse = True, PID = 0, Process = []\<rparr>"
  by (simp add: checkPort_main_eq checkPort_part0_eq resolved_sysTestproc_22 fields_sysTestproc
      firstMatch_sysTestproc_22)

text \<open>
  Claim C5: whenever the probe binds a listening socket it closes that socket before it
  returns, so the port is not left bound; the system after the probe is the system before
  it (no effect beyond the transient bind), and a probe that reports a port available is
  followed by a probe that reports it available again. Both programs, for the ports
  \<open>main\<close> admits.
\<close>

theorem checkPort_releases_listener:
  assumes "1 \<le> port" "port \<le> 65535"
  shows
  "(\<forall>l s'. netListen s port = (Some l, s') \<longrightarrow>
      port \<in> bound s' \<and>
      snd (checkPort_main s port getPID) = listenerClose s' l \<and>
      snd (checkPort_part0 s port getPID) = listenerClose s' l \<and>
      port \<notin> bound (listenerClose s' l)) \<and>
   snd (checkPort_main s port getPID) = s \<and>
   snd (checkPort_part0 s port getPID) = s \<and>
   (\<forall>r. fst (checkPort_main s port getPID) = Inr r \<and> \<not> InUse r \<longrightarrow>
      fst (checkPort_main (snd (checkPort_main s port getPID)) port getPID) = Inr r) \<and>
   (\<forall>r. fst (checkPort_part0 s port getPID) = Inr r \<and> \<not> InUse r \<longrightarrow>
      fst (checkPort_part0 (snd (checkPort_part0 s port getPID)) port getPID) = Inr r)"
proof -
  have a: "\<forall>l s'. netListen s port = (Some l, s') \<longrightarrow>
      port \<in> bound s' \<and>
      snd (checkPort_main s port getPID) = listenerClose s' l \<and>
      snd (checkPort_part0 s port getPID) = listenerClose s' l \<and>
      port \<notin> bound (listenerClose s' l)"
    by (auto simp: netListen_def checkPort_main_def checkPort_part0_def listenerClose_def Let_def
        split: if_splits)
  have b: "snd (checkPort_main s port getPID) = s" "snd (checkPort_part0 s port getPID) = s"
    by (simp_all add: checkPort_main_eq checkPort_part0_eq)
  show ?thesis
  proof (intro conjI)
    show "\<forall>l s'. netListen s port = (Some l, s') \<longrightarrow>
      port \<in> bound s' \<and>
      snd (checkPort_main s port getPID) = listenerClose s' l \<and>
      snd (checkPort_part0 s port getPID) = listenerClose s' l \<and>
      port \<notin> bound (listenerClose s' l)"
      by (rule a)
  qed (simp_all add: b)
qed

theorem checkPort_releases_listener_witness:
  "netListen sysTestproc 9000 = (Some 9000, sysTestproc\<lparr>bound := {9000, 22, 8080}\<rparr>) \<and>
   snd (checkPort_main sysTestproc 9000 False) = sysTestproc \<and>
   snd (checkPort_part0 sysTestproc 9000 False) = sysTestproc \<and>
   fst (checkPort_main sysTestproc 9000 False) =
     Inr \<lparr>Port = 9000, InUse = False, PID = 0, Process = []\<rparr> \<and>
   fst (checkPort_main (snd (checkPort_main sysTestproc 9000 False)) 9000 False) =
     Inr \<lparr>Port = 9000, InUse = False, PID = 0, Process = []\<rparr>"
proof -
  have l: "netListen sysTestproc 9000 = (Some 9000, sysTestproc\<lparr>bound := {9000, 22, 8080}\<rparr>)"
    by (simp add: netListen_def fields_sysTestproc)
  have r: "fst (checkPort_main sysTestproc 9000 False) =
     Inr \<lparr>Port = 9000, InUse = False, PID = 0, Process = []\<rparr>"
    by (simp add: checkPort_main_eq fields_sysTestproc)
  have n: "(1::int) \<le> 9000" "(9000::int) \<le> 65535" by simp_all
  have b: "snd (checkPort_main sysTestproc 9000 False) = sysTestproc \<and>
      snd (checkPort_part0 sysTestproc 9000 False) = sysTestproc"
    using checkPort_releases_listener [OF n, of sysTestproc False] by blast
  show ?thesis using l r b by simp
qed

section \<open>Claims about the socket-table scan\<close>





section \<open>Where the two programs differ\<close>

text \<open>
  The two programs agree wherever the listing of \<open>/proc\<close> returns no error and every
  \<open>comm\<close> file is readable.
\<close>

lemma findPIDByInode_agree:
  assumes "\<not> readdirnamesErr fs" "\<forall>e. \<exists>d. readComm fs e = ReadOK d"
  shows "findPIDByInode_main fs inode = findPIDByInode_part0 fs inode"
proof -
  have "commName_main fs e = commName_part0 fs e" for e
  proof -
    from assms(2) obtain d where "readComm fs e = ReadOK d" by blast
    then show ?thesis by (simp add: commName_main_def commName_part0_def)
  qed
  then have "entryLoop_main fs link entries = entryLoop_part0 fs link entries" for link entries
    by (simp add: entryLoop_main_find entryLoop_part0_find split: option.splits)
  then show ?thesis
    using assms(1) by (simp add: findPIDByInode_main_def findPIDByInode_part0_def)
qed

lemma checkPort_agree:
  assumes "\<not> readdirnamesErr (procTree s)" "\<forall>e. \<exists>d. readComm (procTree s) e = ReadOK d"
  shows "checkPort_main s port getPID = checkPort_part0 s port getPID"
proof -
  have "lookup_main s path port = lookup_part0 s path port" for path
    using findPIDByInode_agree [OF assms]
    by (simp add: lookup_main_def lookup_part0_def split: option.splits)
  then have "resolved_main s port = resolved_part0 s port"
    by (simp add: resolved_main_def resolved_part0_def findProcessByPort_main_eq
        findProcessByPort_part0_eq)
  then show ?thesis by (simp add: checkPort_main_eq checkPort_part0_eq)
qed

text \<open>
  A system whose port 8080 is held by process 4321, whose \<open>comm\<close> file cannot be read;
  and the process tree of \<open>sysTestproc\<close> with a listing of \<open>/proc\<close> that returns its
  names together with an error.
\<close>

definition sysUnreadableComm :: sys where
  "sysUnreadableComm =
     \<lparr>bound = {8080}, refused = (\<lambda>p. False),
      openNet = (\<lambda>path. if path = ''/proc/net/tcp''
                  then Some [''sl local_address'', rowListen]
                  else None),
      procTree = procUnreadableComm\<rparr>"

definition procListingError :: procfs where
  "procListingError = procTestproc\<lparr>readdirnamesErr := True\<rparr>"

lemma fields_sysUnreadableComm:
  "bound sysUnreadableComm = {8080}" "refused sysUnreadableComm = (\<lambda>p. False)"
  "procTree sysUnreadableComm = procUnreadableComm"
  by (simp_all add: sysUnreadableComm_def)

lemma firstMatch_sysUnreadableComm:
  "firstMatch sysUnreadableComm ''/proc/net/tcp'' 8080 = Some rowListen"
  "firstMatch sysUnreadableComm ''/proc/net/tcp6'' 8080 = None"
  by (simp_all add: firstMatch_def sysUnreadableComm_def fmt04X_8080 rowListen_match)

lemma findPIDByInode_procUnreadableComm:
  "findPIDByInode_main procUnreadableComm ''12345'' = (4321, [])"
  "findPIDByInode_part0 procUnreadableComm ''12345'' = (4321, ''unknown'')"
  by code_simp code_simp

lemma lookup_sysUnreadableComm:
  "lookup_main sysUnreadableComm ''/proc/net/tcp'' 8080 = (4321, [])"
  "lookup_part0 sysUnreadableComm ''/proc/net/tcp'' 8080 = (4321, ''unknown'')"
  by (simp_all add: lookup_main_def lookup_part0_def firstMatch_sysUnreadableComm
      rowInode_rowListen fields_sysUnreadableComm findPIDByInode_procUnreadableComm)

text \<open>
  Claim C9: the two programs return equal results for every port, flag and state of the
  socket tables and the process tree. They do not: with an unreadable \<open>comm\<close> file the
  four functions of src/main.go return the empty name where those of
  src/unnamed/part_000 return \<open>unknown\<close>, and with an error from the listing of
  \<open>/proc\<close> src/main.go searches the names it got where src/unnamed/part_000 gives up.
\<close>

theorem programs_differ_on_read_errors:
  "findPIDByInode_main procUnreadableComm ''12345'' = (4321, []) \<and>
   findPIDByInode_part0 procUnreadableComm ''12345'' = (4321, ''unknown'') \<and>
   searchNetFile_main sysUnreadableComm ''/proc/net/tcp'' 8080 = Inr (4321, []) \<and>
   searchNetFile_part0 sysUnreadableComm ''/proc/net/tcp'' 8080 = Inr (4321, ''unknown'') \<and>
   findProcessByPort_main sysUnreadableComm 8080 = Inr (4321, []) \<and>
   findProcessByPort_part0 sysUnreadableComm 8080 = Inr (4321, ''unknown'') \<and>
   fst (checkPort_main sysUnreadableComm 8080 True) =
     Inr \<lparr>Port = 8080, InUse = True, PID = 4321, Process = []\<rparr> \<and>
   fst (checkPort_part0 sysUnreadableComm 8080 True) =
     Inr \<lparr>Port = 8080, InUse = True, PID = 4321, Process = ''unknown''\<rparr> \<and>
   findPIDByInode_main procListingError ''12345'' = (4321, ''testproc'') \<and>
   findPIDByInode_part0 procListingError ''12345'' = (0, [])"
proof -
  have l: "findPIDByInode_main procListingError ''12345'' = (4321, ''testproc'')"
    "findPIDByInode_part0 procListingError ''12345'' = (0, [])"
    by code_simp code_simp
  have r: "resolved_main sysUnreadableComm 8080 = (4321, [])"
    "resolved_part0 sysUnreadableComm 8080 = (4321, ''unknown'')"
    by (simp_all add: resolved_main_def resolved_part0_def findProcessByPort_main_eq
        findProcessByPort_part0_eq lookup_sysUnreadableComm)
  show ?thesis
    by (simp add: findPIDByInode_procUnreadableComm searchNetFile_main_eq searchNetFile_part0_eq
        lookup_sysUnreadableComm findProcessByPort_main_resolved findProcessByPort_part0_resolved
        r checkPort_main_eq checkPort_part0_eq fields_sysUnreadableComm l)
qed

section \<open>Claims about the order of the lookup\<close>

lemma find_first_match:
  assumes "\<not> (\<exists>r \<in> set pre. P r)" "P row"
  shows "List.find P (pre @ row # post) = Some row"
  using assms by (induction pre) auto

lemma lookup_tcp_update:
  "lookup_main (s\<lparr>openNet := (openNet s)(''/proc/net/tcp6'' := t6)\<rparr>) ''/proc/net/tcp'' port =
     lookup_main s ''/proc/net/tcp'' port"
  "lookup_part0 (s\<lparr>openNet := (openNet s)(''/proc/net/tcp6'' := t6)\<rparr>) ''/proc/net/tcp'' port =
     lookup_part0 s ''/proc/net/tcp'' port"
  by (simp_all add: lookup_main_def lookup_part0_def firstMatch_def split: option.splits)

text \<open>
  Claim C4, as the programs have it: the scan of a table stops at the first row that
  matches the port in listening state, whatever rows follow; when the search of the IPv4
  table returns a positive pid, that is the result, whatever the IPv6 table holds; in
  every other case (no matching row, an unreadable table, or a matching row whose inode
  no visible process holds) the result is that of the IPv6 table if its pid is positive,
  and no pid otherwise; with no matching row in either table resolution returns no pid.
\<close>

theorem findProcessByPort_table_order:
  "(\<not> (\<exists>r \<in> set pre. rowMatches portHex r) \<and> rowMatches portHex row \<longrightarrow>
      rowLoop_main fs portHex (pre @ row # post) = Inr (findPIDByInode_main fs (rowInode row)) \<and>
      rowLoop_part0 fs portHex (pre @ row # post) = Inr (findPIDByInode_part0 fs (rowInode row))) \<and>
   (searchNetFile_main s ''/proc/net/tcp'' port = Inr (pid, name) \<and> 0 < pid \<longrightarrow>
      findProcessByPort_main (s\<lparr>openNet := (openNet s)(''/proc/net/tcp6'' := t6)\<rparr>) port =
        Inr (pid, name)) \<and>
   (searchNetFile_part0 s ''/proc/net/tcp'' port = Inr (pid, name) \<and> 0 < pid \<longrightarrow>
      findProcessByPort_part0 (s\<lparr>openNet := (openNet s)(''/proc/net/tcp6'' := t6)\<rparr>) port =
        Inr (pid, name)) \<and>
   (searchNetFile_main s ''/proc/net/tcp'' port = Inr (pid, name) \<and> pid \<le> 0 \<longrightarrow>
      findProcessByPort_main s port =
        (if 0 < fst (lookup_main s ''/proc/net/tcp6'' port)
         then searchNetFile_main s ''/proc/net/tcp6'' port else Inr (0, []))) \<and>
   (searchNetFile_part0 s ''/proc/net/tcp'' port = Inr (pid, name) \<and> pid \<le> 0 \<longrightarrow>
      findProcessByPort_part0 s port =
        (if 0 < fst (lookup_part0 s ''/proc/net/tcp6'' port)
         then searchNetFile_part0 s ''/proc/net/tcp6'' port else Inr (0, []))) \<and>
   (firstMatch s ''/proc/net/tcp'' port = None \<and> firstMatch s ''/proc/net/tcp6'' port = None \<longrightarrow>
      findProcessByPort_main s port = Inr (0, []) \<and>
      findProcessByPort_part0 s port = Inr (0, []))"
proof (intro conjI impI)
  assume a: "\<not> (\<exists>r \<in> set pre. rowMatches portHex r) \<and> rowMatches portHex row"
  then have f: "List.find (rowMatches portHex) (pre @ row # post) = Some row"
    by (simp add: find_first_match)
  show "rowLoop_main fs portHex (pre @ row # post) = Inr (findPIDByInode_main fs (rowInode row))"
    by (simp add: rowLoop_main_find f)
  show "rowLoop_part0 fs portHex (pre @ row # post) = Inr (findPIDByInode_part0 fs (rowInode row))"
    by (simp add: rowLoop_part0_find f)
next
  assume "searchNetFile_main s ''/proc/net/tcp'' port = Inr (pid, name) \<and> 0 < pid"
  then show "findProcessByPort_main (s\<lparr>openNet := (openNet s)(''/proc/net/tcp6'' := t6)\<rparr>) port =
        Inr (pid, name)"
    by (simp add: searchNetFile_main_eq findProcessByPort_main_eq lookup_tcp_update)
next
  assume "searchNetFile_part0 s ''/proc/net/tcp'' port = Inr (pid, name) \<and> 0 < pid"
  then show "findProcessByPort_part0 (s\<lparr>openNet := (openNet s)(''/proc/net/tcp6'' := t6)\<rparr>) port =
        Inr (pid, name)"
    by (simp add: searchNetFile_part0_eq findProcessByPort_part0_eq lookup_tcp_update)
next
  assume "searchNetFile_main s ''/proc/net/tcp'' port = Inr (pid, name) \<and> pid \<le> 0"
  then show "findProcessByPort_main s port =
        (if 0 < fst (lookup_main s ''/proc/net/tcp6'' port)
         then searchNetFile_main s ''/proc/net/tcp6'' port else Inr (0, []))"
    by (simp add: searchNetFile_main_eq findProcessByPort_main_eq)
next
  assume "searchNetFile_part0 s ''/proc/net/tcp'' port = Inr (pid, name) \<and> pid \<le> 0"
  then show "findProcessByPort_part0 s port =
        (if 0 < fst (lookup_part0 s ''/proc/net/tcp6'' port)
         then searchNetFile_part0 s ''/proc/net/tcp6'' port else Inr (0, []))"
    by (simp add: searchNetFile_part0_eq findProcessByPort_part0_eq)
next
  assume n: "firstMatch s ''/proc/net/tcp'' port = None \<and> firstMatch s ''/proc/net/tcp6'' port = None"
  show "findProcessByPort_main s port = Inr (0, [])"
    using n by (simp add: findProcessByPort_main_eq lookup_main_def)
  show "findProcessByPort_part0 s port = Inr (0, [])"
    using n by (simp add: findProcessByPort_part0_eq lookup_part0_def)
qed


text \<open>
  A dual-stack system: port 8080 has a listening row in the IPv4 table whose inode 111 no
  visible process holds, and a listening row in the IPv6 table whose inode 12345 process
  4321 holds.
\<close>

definition rowHidden :: string where
  "rowHidden = ''0: 0:1F90 0:0 0A 0 0 0 0 0 111''"

definition sysDualStack :: sys where
  "sysDualStack =
     \<lparr>bound = {8080}, refused = (\<lambda>p. False),
      openNet = (\<lambda>path. if path = ''/proc/net/tcp'' then Some [''sl local_address'', rowHidden]
                  else if path = ''/proc/net/tcp6'' then Some [''sl local_address'', rowListen]
                  else None),
      procTree = procTestproc\<rparr>"

lemma Fields_rowHidden:
  "Fields rowHidden = [''0:'', ''0:1F90'', ''0:0'', ''0A'', ''0'', ''0'', ''0'', ''0'', ''0'', ''111'']"
  by code_simp

lemma rowHidden_match: "rowMatches ''1F90'' rowHidden"
  by (simp add: rowMatches_def Fields_rowHidden)

lemma rowInode_rowHidden: "rowInode rowHidden = ''111''"
  by (simp add: rowInode_def Fields_rowHidden)

lemma procTree_sysDualStack: "procTree sysDualStack = procTestproc"
  by (simp add: sysDualStack_def)

lemma firstMatch_sysDualStack:
  "firstMatch sysDualStack ''/proc/net/tcp'' 8080 = Some rowHidden"
  "firstMatch sysDualStack ''/proc/net/tcp6'' 8080 = Some rowListen"
  "firstMatch (sysDualStack\<lparr>openNet := (openNet sysDualStack)(''/proc/net/tcp6'' := None)\<rparr>)
     ''/proc/net/tcp'' 8080 = Some rowHidden"
  "firstMatch (sysDualStack\<lparr>openNet := (openNet sysDualStack)(''/proc/net/tcp6'' := None)\<rparr>)
     ''/proc/net/tcp6'' 8080 = None"
  by (simp_all add: firstMatch_def sysDualStack_def fmt04X_8080 rowHidden_match rowListen_match)

text \<open>
  Claim C4 as the specification states it fails: the IPv4 table yields a matching row,
  and yet the IPv6 table is consulted; the pid comes from it, and with an unreadable IPv6
  table the same lookup returns no pid.
\<close>

theorem findProcessByPort_consults_tcp6_after_match:
  "firstMatch sysDualStack ''/proc/net/tcp'' 8080 = Some rowHidden \<and>
   rowMatches (fmt04X 8080) rowHidden \<and>
   findProcessByPort_main sysDualStack 8080 = Inr (4321, ''testproc'') \<and>
   findProcessByPort_part0 sysDualStack 8080 = Inr (4321, ''testproc'') \<and>
   findProcessByPort_main
     (sysDualStack\<lparr>openNet := (openNet sysDualStack)(''/proc/net/tcp6'' := None)\<rparr>) 8080 =
     Inr (0, []) \<and>
   findProcessByPort_part0
     (sysDualStack\<lparr>openNet := (openNet sysDualStack)(''/proc/net/tcp6'' := None)\<rparr>) 8080 =
     Inr (0, [])"
  by (simp add: findProcessByPort_main_eq findProcessByPort_part0_eq lookup_main_def
      lookup_part0_def firstMatch_sysDualStack fmt04X_8080 rowHidden_match rowInode_rowHidden
      rowInode_rowListen procTree_sysDualStack findPIDByInode_procTestproc
      findPIDByInode_procTestproc_111)

lemma fmt04X_9000: "fmt04X 9000 = ''2328''"
  by (simp add: fmt04X_port hexChar_def)

lemma firstMatch_sysTestproc_9000:
  "firstMatch sysTestproc ''/proc/net/tcp'' 9000 = None"
  "firstMatch sysTestproc ''/proc/net/tcp6'' 9000 = None"
  by (simp_all add: firstMatch_def sysTestproc_def fmt04X_9000 rowMatches_def Fields_rowSsh
      Fields_rowListen)

theorem findProcessByPort_table_order_witness:
  "rowLoop_main procTestproc ''1F90'' [rowSsh, rowListen, rowHidden] = Inr (4321, ''testproc'') \<and>
   rowLoop_part0 procTestproc ''1F90'' [rowSsh, rowListen, rowHidden] = Inr (4321, ''testproc'') \<and>
   findProcessByPort_main
     (sysTestproc\<lparr>openNet := (openNet sysTestproc)
        (''/proc/net/tcp6'' := Some [''sl local_address'', rowHidden])\<rparr>) 8080 =
     Inr (4321, ''testproc'') \<and>
   findProcessByPort_part0
     (sysTestproc\<lparr>openNet := (openNet sysTestproc)
        (''/proc/net/tcp6'' := Some [''sl local_address'', rowHidden])\<rparr>) 8080 =
     Inr (4321, ''testproc'') \<and>
   findProcessByPort_main sysTestproc 22 = Inr (0, []) \<and>
   findProcessByPort_part0 sysTestproc 22 = Inr (0, []) \<and>
   findProcessByPort_main sysTestproc 9000 = Inr (0, []) \<and>
   findProcessByPort_part0 sysTestproc 9000 = Inr (0, [])"
proof -
  note t1 = findProcessByPort_table_order
    [where pre = "[rowSsh]" and portHex = "''1F90''" and row = rowListen and post = "[rowHidden]"
      and fs = procTestproc and s = sysTestproc and port = 8080 and pid = 4321
      and name = "''testproc''" and ?t6.0 = "Some [''sl local_address'', rowHidden]"]
  note t2 = findProcessByPort_table_order
    [where pre = "[]" and portHex = "''1F90''" and row = rowListen and post = "[]"
      and fs = procTestproc and s = sysTestproc and port = 22 and pid = 0 and name = "[]"
      and ?t6.0 = None]
  note t3 = findProcessByPort_table_order
    [where pre = "[]" and portHex = "''1F90''" and row = rowListen and post = "[]"
      and fs = procTestproc and s = sysTestproc and port = 9000 and pid = 0 and name = "[]"
      and ?t6.0 = None]
  have s8080: "searchNetFile_main sysTestproc ''/proc/net/tcp'' 8080 = Inr (4321, ''testproc'')"
    "searchNetFile_part0 sysTestproc ''/proc/net/tcp'' 8080 = Inr (4321, ''testproc'')"
    by (simp_all add: searchNetFile_main_eq searchNetFile_part0_eq lookup_sysTestproc)
  have l22: "lookup_main sysTestproc ''/proc/net/tcp'' 22 = (0, [])"
    "lookup_part0 sysTestproc ''/proc/net/tcp'' 22 = (0, [])"
    "lookup_main sysTestproc ''/proc/net/tcp6'' 22 = (0, [])"
    "lookup_part0 sysTestproc ''/proc/net/tcp6'' 22 = (0, [])"
    by (simp_all add: lookup_main_def lookup_part0_def firstMatch_sysTestproc_22 rowInode_rowSsh
        procTree_sysTestproc findPIDByInode_procTestproc_111)
  have a: "rowLoop_main procTestproc ''1F90'' [rowSsh, rowListen, rowHidden] =
      Inr (4321, ''testproc'')"
    "rowLoop_part0 procTestproc ''1F90'' [rowSsh, rowListen, rowHidden] =
      Inr (4321, ''testproc'')"
    using t1 by (simp_all add: rowSsh_no_match rowListen_match rowInode_rowListen
        findPIDByInode_procTestproc)
  have b: "findProcessByPort_main
     (sysTestproc\<lparr>openNet := (openNet sysTestproc)
        (''/proc/net/tcp6'' := Some [''sl local_address'', rowHidden])\<rparr>) 8080 =
     Inr (4321, ''testproc'')"
    "findProcessByPort_part0
     (sysTestproc\<lparr>openNet := (openNet sysTestproc)
        (''/proc/net/tcp6'' := Some [''sl local_address'', rowHidden])\<rparr>) 8080 =
     Inr (4321, ''testproc'')"
    using t1 s8080 by simp_all
  have c: "findProcessByPort_main sysTestproc 22 = Inr (0, [])"
    "findProcessByPort_part0 sysTestproc 22 = Inr (0, [])"
    using t2 by (simp_all add: searchNetFile_main_eq searchNetFile_part0_eq l22)
  have d: "findProcessByPort_main sysTestproc 9000 = Inr (0, [])"
    "findProcessByPort_part0 sysTestproc 9000 = Inr (0, [])"
    using t3 by (simp_all add: firstMatch_sysTestproc_9000)
  from a b c d show ?thesis by simp
qed

section \<open>Claim about the correlation of a port with its owner\<close>

















end
